theory Spec2Isabelle
  imports Complex_Main "HOL-Library.Finite_Map"
begin

section \<open>Python values\<close>

text \<open>
  The wire format and every untyped value the client handles (\<open>Any\<close> in the source) is a
  JSON value. A Python \<open>dict\<close> with string keys is a finite map: \<open>==\<close> on dicts
  ignores insertion order, so two dicts are equal exactly when their finite maps are.
  \<open>None\<close> is \<open>JNull\<close>. Floats are carried as numbers and never computed with.
  A \<open>str\<close> is a list of characters.
\<close>

datatype json =
    JNull
  | JBool bool
  | JInt int
  | JFloat real
  | JStr string
  | JList "json list"
  | JObj "(string, json) fmap"

text \<open>
  \<open>MaxAPIError\<close> (api.py) is a dataclass and an exception. Its optional fields hold what
  \<open>data.get\<close> returned, so they are JSON values.
\<close>

record MaxAPIError =
  status_code :: int
  error_code :: json
  message :: json
  details :: json

text \<open>
  The exceptions of the two modules. \<open>KeyError\<close> carries the missing key.
  \<open>ConnectionError\<close> stands for what the transport raises when no response arrives.
  \<open>Unmodelled\<close> is not a Python exception: it marks the inputs where Python's result
  depends on the insertion order of a dict or builds a dict from a sequence of pairs,
  which the finite-map view of a dict does not determine.
\<close>

datatype exn =
    KeyError string
  | TypeError
  | AttributeError
  | ValueError
  | ConnectionError
  | MaxAPIError_exn MaxAPIError
  | Unmodelled

text \<open>\<open>data[k]\<close>: a missing key raises KeyError, anything but a dict raises TypeError.\<close>

fun getitem :: "json \<Rightarrow> string \<Rightarrow> exn + json" where
  "getitem (JObj m) k = (case fmlookup m k of None \<Rightarrow> Inl (KeyError k) | Some v \<Rightarrow> Inr v)"
| "getitem _ k = Inl TypeError"

text \<open>\<open>data.get(k, d)\<close>: only a dict has the method.\<close>

fun get_default :: "json \<Rightarrow> string \<Rightarrow> json \<Rightarrow> exn + json" where
  "get_default (JObj m) k d = Inr (case fmlookup m k of None \<Rightarrow> d | Some v \<Rightarrow> v)"
| "get_default _ k d = Inl AttributeError"

text \<open>\<open>data.get(k)\<close>, the default being \<open>None\<close>.\<close>

definition get :: "json \<Rightarrow> string \<Rightarrow> exn + json" where
  "get data k = get_default data k JNull"

text \<open>Truth value of a Python object, as \<open>x or y\<close> and \<open>if x\<close> test it.\<close>

fun truthy :: "json \<Rightarrow> bool" where
  "truthy JNull = False"
| "truthy (JBool b) = b"
| "truthy (JInt n) = (n \<noteq> 0)"
| "truthy (JFloat r) = (r \<noteq> 0)"
| "truthy (JStr s) = (s \<noteq> [])"
| "truthy (JList xs) = (xs \<noteq> [])"
| "truthy (JObj m) = (m \<noteq> fmempty)"

text \<open>\<open>x or d\<close>.\<close>

definition or_else :: "json \<Rightarrow> json \<Rightarrow> json" where
  "or_else x d = (if truthy x then x else d)"

text \<open>\<open>isinstance(x, Mapping)\<close>.\<close>

fun is_Mapping :: "json \<Rightarrow> bool" where
  "is_Mapping (JObj m) = True"
| "is_Mapping _ = False"

text \<open>
  \<open>dict(x)\<close>: a copy of a dict; the empty dict for an empty sequence; ValueError for a
  non-empty string (its elements have length 1); TypeError for a value that is not
  iterable. A non-empty list is a sequence of key/value pairs.
\<close>

fun py_dict :: "json \<Rightarrow> exn + (string, json) fmap" where
  "py_dict (JObj m) = Inr m"
| "py_dict (JList []) = Inr fmempty"
| "py_dict (JList (x # xs)) = Inl Unmodelled"
| "py_dict (JStr []) = Inr fmempty"
| "py_dict (JStr (c # cs)) = Inl ValueError"
| "py_dict _ = Inl TypeError"

text \<open>
  \<open>list(x)\<close>: a copy of a list; the characters of a string; the keys of a dict in
  insertion order; TypeError for a value that is not iterable.
\<close>

fun py_list :: "json \<Rightarrow> exn + json list" where
  "py_list (JList xs) = Inr xs"
| "py_list (JStr s) = Inr (map (\<lambda>c. JStr [c]) s)"
| "py_list (JObj m) = (if m = fmempty then Inr [] else Inl Unmodelled)"
| "py_list _ = Inl TypeError"

text \<open>Sequencing of two steps that may raise.\<close>

definition bnd :: "exn + 'a \<Rightarrow> ('a \<Rightarrow> exn + 'b) \<Rightarrow> exn + 'b" where
  "bnd r f = (case r of Inl e \<Rightarrow> Inl e | Inr x \<Rightarrow> f x)"

text \<open>A result that is a Python exception.\<close>

definition raises :: "exn + 'a \<Rightarrow> bool" where
  "raises r = (case r of Inl e \<Rightarrow> e \<noteq> Unmodelled | Inr x \<Rightarrow> False)"

text \<open>A list comprehension whose body may raise: the first exception ends it.\<close>

fun map_exn :: "('a \<Rightarrow> exn + 'b) \<Rightarrow> 'a list \<Rightarrow> exn + 'b list" where
  "map_exn f [] = Inr []"
| "map_exn f (x # xs) = bnd (f x) (\<lambda>y. bnd (map_exn f xs) (\<lambda>ys. Inr (y # ys)))"

section \<open>models.py\<close>

subsection \<open>User, UserWithPhoto\<close>

text \<open>
  A dataclass is a record. The field annotations are not checked at run time, so a field
  holds whatever value the decoder found: the fields of plain data are JSON values.
  A subclass is a record extension.
\<close>

record User =
  user_id :: json
  first_name :: json
  last_name :: json
  username :: json
  is_bot :: json
  last_activity_time :: json
  name :: json

definition User_from_dict :: "json \<Rightarrow> exn + User" where
  "User_from_dict data =
     bnd (getitem data ''user_id'') (\<lambda>v_user_id.
     bnd (getitem data ''first_name'') (\<lambda>v_first_name.
     bnd (get data ''last_name'') (\<lambda>v_last_name.
     bnd (get data ''username'') (\<lambda>v_username.
     bnd (getitem data ''is_bot'') (\<lambda>v_is_bot.
     bnd (getitem data ''last_activity_time'') (\<lambda>v_last_activity_time.
     bnd (get data ''name'') (\<lambda>v_name.
     Inr \<lparr>user_id = v_user_id, first_name = v_first_name, last_name = v_last_name,
          username = v_username, is_bot = v_is_bot,
          last_activity_time = v_last_activity_time, name = v_name\<rparr>)))))))"

definition User_to_dict :: "'a User_scheme \<Rightarrow> (string, json) fmap" where
  "User_to_dict u = fmap_of_list
     [(''user_id'', user_id u), (''first_name'', first_name u), (''last_name'', last_name u),
      (''username'', username u), (''is_bot'', is_bot u),
      (''last_activity_time'', last_activity_time u), (''name'', name u)]"

text \<open>
  \<open>cls(**base.to_dict(), description=..., ...)\<close> passes the seven fields of the decoded
  base object by name and adds the extension fields.
\<close>

record UserWithPhoto = User +
  description :: json
  avatar_url :: json
  full_avatar_url :: json

definition UserWithPhoto_from_dict :: "json \<Rightarrow> exn + UserWithPhoto" where
  "UserWithPhoto_from_dict data =
     bnd (User_from_dict data) (\<lambda>base.
     bnd (get data ''description'') (\<lambda>v_description.
     bnd (get data ''avatar_url'') (\<lambda>v_avatar_url.
     bnd (get data ''full_avatar_url'') (\<lambda>v_full_avatar_url.
     Inr \<lparr>user_id = user_id base, first_name = first_name base, last_name = last_name base,
          username = username base, is_bot = is_bot base,
          last_activity_time = last_activity_time base, name = name base,
          description = v_description, avatar_url = v_avatar_url,
          full_avatar_url = v_full_avatar_url\<rparr>))))"

definition UserWithPhoto_to_dict :: "'a UserWithPhoto_scheme \<Rightarrow> (string, json) fmap" where
  "UserWithPhoto_to_dict u =
     User_to_dict u ++\<^sub>f fmap_of_list
       [(''description'', description u), (''avatar_url'', avatar_url u),
        (''full_avatar_url'', full_avatar_url u)]"

subsection \<open>Recipient\<close>

text \<open>
  Field names that several classes share carry a prefix for the class: \<open>r_\<close> Recipient,
  \<open>a_\<close> Attachment, \<open>s_\<close> MessageStat, \<open>b_\<close> MessageBody, \<open>l_\<close> LinkedMessage,
  \<open>m_\<close> Message, \<open>c_\<close> Chat, \<open>adm_\<close> ChatAdmin, \<open>u_\<close> Update.
\<close>

record Recipient =
  r_chat_id :: json
  r_chat_type :: json
  r_user_id :: json

definition Recipient_from_dict :: "json \<Rightarrow> exn + Recipient" where
  "Recipient_from_dict data =
     bnd (get data ''chat_id'') (\<lambda>v_chat_id.
     bnd (getitem data ''chat_type'') (\<lambda>v_chat_type.
     bnd (get data ''user_id'') (\<lambda>v_user_id.
     Inr \<lparr>r_chat_id = v_chat_id, r_chat_type = v_chat_type, r_user_id = v_user_id\<rparr>)))"

definition Recipient_to_dict :: "Recipient \<Rightarrow> (string, json) fmap" where
  "Recipient_to_dict r = fmap_of_list
     [(''chat_id'', r_chat_id r), (''chat_type'', r_chat_type r), (''user_id'', r_user_id r)]"

subsection \<open>Attachment, LocationAttachment\<close>

record Attachment =
  a_type :: json
  a_payload :: json

record LocationAttachment = Attachment +
  latitude :: json
  longitude :: json

text \<open>
  A value of static type \<open>Attachment\<close> is an instance of the class or of its subclass;
  two dataclass instances of different classes are never equal.
\<close>

datatype attachment_obj =
    Attachment_obj Attachment
  | LocationAttachment_obj LocationAttachment

definition Attachment_from_dict :: "json \<Rightarrow> exn + Attachment" where
  "Attachment_from_dict data =
     bnd (getitem data ''type'') (\<lambda>v_type.
     bnd (get data ''payload'') (\<lambda>v_payload.
     Inr \<lparr>a_type = v_type, a_payload = v_payload\<rparr>))"

definition Attachment_to_dict :: "Attachment \<Rightarrow> (string, json) fmap" where
  "Attachment_to_dict a =
     (let d = fmap_of_list [(''type'', a_type a)]
      in if a_payload a \<noteq> JNull then fmupd ''payload'' (a_payload a) d else d)"

definition LocationAttachment_from_dict :: "json \<Rightarrow> exn + LocationAttachment" where
  "LocationAttachment_from_dict data =
     bnd (get data ''payload'') (\<lambda>raw.
     let payload = or_else raw (JObj fmempty) in
     bnd (getitem data ''type'') (\<lambda>v_type.
     bnd (get_default payload ''latitude'' (JFloat 0)) (\<lambda>v_latitude.
     bnd (get_default payload ''longitude'' (JFloat 0)) (\<lambda>v_longitude.
     Inr \<lparr>a_type = v_type, a_payload = payload,
          latitude = v_latitude, longitude = v_longitude\<rparr>))))"

definition LocationAttachment_to_dict :: "LocationAttachment \<Rightarrow> exn + (string, json) fmap" where
  "LocationAttachment_to_dict a =
     bnd (py_dict (or_else (a_payload a) (JObj fmempty))) (\<lambda>payload.
     let payload = fmupd ''latitude'' (latitude a) payload;
         payload = fmupd ''longitude'' (longitude a) payload
     in Inr (fmap_of_list [(''type'', a_type a), (''payload'', JObj payload)]))"

text \<open>\<open>a.to_dict()\<close> on a value of static type \<open>Attachment\<close>: the method of its class.\<close>

fun attachment_to_dict :: "attachment_obj \<Rightarrow> exn + (string, json) fmap" where
  "attachment_to_dict (Attachment_obj a) = Inr (Attachment_to_dict a)"
| "attachment_to_dict (LocationAttachment_obj a) = LocationAttachment_to_dict a"

subsection \<open>MessageStat, MessageBody\<close>

record MessageStat =
  s_views :: json

definition MessageStat_from_dict :: "json \<Rightarrow> exn + MessageStat" where
  "MessageStat_from_dict data =
     bnd (getitem data ''views'') (\<lambda>v_views. Inr \<lparr>s_views = v_views\<rparr>)"

definition MessageStat_to_dict :: "MessageStat \<Rightarrow> (string, json) fmap" where
  "MessageStat_to_dict s = fmap_of_list [(''views'', s_views s)]"

record MessageBody =
  b_mid :: json
  b_seq :: json
  b_text :: json
  b_attachments :: "attachment_obj list"
  b_markup :: json

text \<open>
  \<open>[Attachment.from_dict(a) for a in attachments_raw]\<close> over a truthy value: a list is
  decoded element by element with the decoder of the base class; iterating a dict or a
  string yields strings, on which \<open>data["type"]\<close> raises TypeError; a number or
  \<open>True\<close> is not iterable.
\<close>

fun decode_attachments :: "json \<Rightarrow> exn + attachment_obj list" where
  "decode_attachments (JList xs) =
     map_exn (\<lambda>a. bnd (Attachment_from_dict a) (\<lambda>x. Inr (Attachment_obj x))) xs"
| "decode_attachments (JStr s) = (if s = [] then Inr [] else Inl TypeError)"
| "decode_attachments (JObj m) = (if m = fmempty then Inr [] else Inl TypeError)"
| "decode_attachments _ = Inl TypeError"

definition MessageBody_from_dict :: "json \<Rightarrow> exn + MessageBody" where
  "MessageBody_from_dict data =
     bnd (get data ''attachments'') (\<lambda>raw.
     let attachments_raw = or_else raw (JList []) in
     bnd (decode_attachments attachments_raw) (\<lambda>v_attachments.
     bnd (getitem data ''mid'') (\<lambda>v_mid.
     bnd (getitem data ''seq'') (\<lambda>v_seq.
     bnd (get data ''text'') (\<lambda>v_text.
     bnd (get data ''markup'') (\<lambda>v_markup.
     Inr \<lparr>b_mid = v_mid, b_seq = v_seq, b_text = v_text,
          b_attachments = v_attachments, b_markup = v_markup\<rparr>))))))"

definition MessageBody_to_dict :: "MessageBody \<Rightarrow> exn + (string, json) fmap" where
  "MessageBody_to_dict b =
     bnd (map_exn attachment_to_dict (b_attachments b)) (\<lambda>ds.
     Inr (fmap_of_list
       [(''mid'', b_mid b), (''seq'', b_seq b), (''text'', b_text b),
        (''attachments'', JList (map JObj ds)), (''markup'', b_markup b)]))"

subsection \<open>LinkedMessage, Message\<close>

text \<open>
  \<open>C.from_dict(raw) if isinstance(raw, Mapping) else None\<close>, for a nested optional
  object.
\<close>

definition decode_optional :: "(json \<Rightarrow> exn + 'a) \<Rightarrow> json \<Rightarrow> exn + 'a option" where
  "decode_optional from_dict raw =
     (if is_Mapping raw then bnd (from_dict raw) (\<lambda>x. Inr (Some x)) else Inr None)"

text \<open>
  \<open>x.to_dict() if x else None\<close>: a dataclass instance is always truthy, so only
  \<open>None\<close> takes the second branch.
\<close>

definition encode_optional :: "('a \<Rightarrow> exn + (string, json) fmap) \<Rightarrow> 'a option \<Rightarrow> exn + json" where
  "encode_optional to_dict x =
     (case x of None \<Rightarrow> Inr JNull | Some y \<Rightarrow> bnd (to_dict y) (\<lambda>d. Inr (JObj d)))"

record LinkedMessage =
  l_type :: json
  l_sender :: "User option"
  l_chat_id :: json
  l_message :: MessageBody

definition LinkedMessage_from_dict :: "json \<Rightarrow> exn + LinkedMessage" where
  "LinkedMessage_from_dict data =
     bnd (get data ''sender'') (\<lambda>sender_raw.
     bnd (decode_optional User_from_dict sender_raw) (\<lambda>v_sender.
     bnd (getitem data ''type'') (\<lambda>v_type.
     bnd (getitem data ''chat_id'') (\<lambda>v_chat_id.
     bnd (getitem data ''message'') (\<lambda>message_raw.
     bnd (MessageBody_from_dict message_raw) (\<lambda>v_message.
     Inr \<lparr>l_type = v_type, l_sender = v_sender, l_chat_id = v_chat_id,
          l_message = v_message\<rparr>))))))"

definition LinkedMessage_to_dict :: "LinkedMessage \<Rightarrow> exn + (string, json) fmap" where
  "LinkedMessage_to_dict l =
     bnd (encode_optional (\<lambda>u. Inr (User_to_dict u)) (l_sender l)) (\<lambda>d_sender.
     bnd (MessageBody_to_dict (l_message l)) (\<lambda>d_message.
     Inr (fmap_of_list
       [(''type'', l_type l), (''sender'', d_sender), (''chat_id'', l_chat_id l),
        (''message'', JObj d_message)])))"

record Message =
  m_recipient :: Recipient
  m_body :: MessageBody
  m_timestamp :: json
  m_sender :: "User option"
  m_link :: "LinkedMessage option"
  m_stat :: "MessageStat option"
  m_url :: json

definition Message_from_dict :: "json \<Rightarrow> exn + Message" where
  "Message_from_dict data =
     bnd (get data ''sender'') (\<lambda>sender_raw.
     bnd (get data ''link'') (\<lambda>link_raw.
     bnd (get data ''stat'') (\<lambda>stat_raw.
     bnd (decode_optional User_from_dict sender_raw) (\<lambda>v_sender.
     bnd (decode_optional LinkedMessage_from_dict link_raw) (\<lambda>v_link.
     bnd (decode_optional MessageStat_from_dict stat_raw) (\<lambda>v_stat.
     bnd (getitem data ''recipient'') (\<lambda>recipient_raw.
     bnd (Recipient_from_dict recipient_raw) (\<lambda>v_recipient.
     bnd (getitem data ''body'') (\<lambda>body_raw.
     bnd (MessageBody_from_dict body_raw) (\<lambda>v_body.
     bnd (getitem data ''timestamp'') (\<lambda>v_timestamp.
     bnd (get data ''url'') (\<lambda>v_url.
     Inr \<lparr>m_recipient = v_recipient, m_body = v_body, m_timestamp = v_timestamp,
          m_sender = v_sender, m_link = v_link, m_stat = v_stat,
          m_url = v_url\<rparr>))))))))))))"

definition Message_to_dict :: "Message \<Rightarrow> exn + (string, json) fmap" where
  "Message_to_dict m =
     bnd (encode_optional (\<lambda>u. Inr (User_to_dict u)) (m_sender m)) (\<lambda>d_sender.
     bnd (encode_optional LinkedMessage_to_dict (m_link m)) (\<lambda>d_link.
     bnd (MessageBody_to_dict (m_body m)) (\<lambda>d_body.
     bnd (encode_optional (\<lambda>s. Inr (MessageStat_to_dict s)) (m_stat m)) (\<lambda>d_stat.
     Inr (fmap_of_list
       [(''sender'', d_sender), (''recipient'', JObj (Recipient_to_dict (m_recipient m))),
        (''timestamp'', m_timestamp m), (''link'', d_link), (''body'', JObj d_body),
        (''stat'', d_stat), (''url'', m_url m)])))))"

subsection \<open>Chat\<close>

record Chat =
  c_chat_id :: json
  c_type :: json
  c_status :: json
  c_title :: json
  c_last_event_time :: json
  c_participants_count :: json
  c_icon :: json
  c_is_public :: json
  c_description :: json
  c_owner_id :: json
  c_participants :: json
  c_link :: json
  c_dialog_with_user :: "UserWithPhoto option"
  c_chat_message_id :: json
  c_pinned_message :: "Message option"

definition Chat_from_dict :: "json \<Rightarrow> exn + Chat" where
  "Chat_from_dict data =
     bnd (get data ''participants'') (\<lambda>participants_raw.
     bnd (if participants_raw \<noteq> JNull
          then bnd (py_dict participants_raw) (\<lambda>d. Inr (JObj d))
          else Inr participants_raw) (\<lambda>v_participants.
     bnd (get data ''dialog_with_user'') (\<lambda>dialog_raw.
     bnd (decode_optional UserWithPhoto_from_dict dialog_raw) (\<lambda>v_dialog.
     bnd (get data ''pinned_message'') (\<lambda>pinned_raw.
     bnd (decode_optional Message_from_dict pinned_raw) (\<lambda>v_pinned.
     bnd (getitem data ''chat_id'') (\<lambda>v_chat_id.
     bnd (getitem data ''type'') (\<lambda>v_type.
     bnd (getitem data ''status'') (\<lambda>v_status.
     bnd (get data ''title'') (\<lambda>v_title.
     bnd (getitem data ''last_event_time'') (\<lambda>v_last_event_time.
     bnd (getitem data ''participants_count'') (\<lambda>v_participants_count.
     bnd (get data ''icon'') (\<lambda>v_icon.
     bnd (getitem data ''is_public'') (\<lambda>v_is_public.
     bnd (get data ''description'') (\<lambda>v_description.
     bnd (get data ''owner_id'') (\<lambda>v_owner_id.
     bnd (get data ''link'') (\<lambda>v_link.
     bnd (get data ''chat_message_id'') (\<lambda>v_chat_message_id.
     Inr \<lparr>c_chat_id = v_chat_id, c_type = v_type, c_status = v_status, c_title = v_title,
          c_last_event_time = v_last_event_time,
          c_participants_count = v_participants_count, c_icon = v_icon,
          c_is_public = v_is_public, c_description = v_description,
          c_owner_id = v_owner_id, c_participants = v_participants, c_link = v_link,
          c_dialog_with_user = v_dialog, c_chat_message_id = v_chat_message_id,
          c_pinned_message = v_pinned\<rparr>))))))))))))))))))"

definition Chat_to_dict :: "Chat \<Rightarrow> exn + (string, json) fmap" where
  "Chat_to_dict c =
     bnd (encode_optional (\<lambda>u. Inr (UserWithPhoto_to_dict u)) (c_dialog_with_user c))
       (\<lambda>d_dialog.
     bnd (encode_optional Message_to_dict (c_pinned_message c)) (\<lambda>d_pinned.
     Inr (fmap_of_list
       [(''chat_id'', c_chat_id c), (''type'', c_type c), (''status'', c_status c),
        (''title'', c_title c), (''last_event_time'', c_last_event_time c),
        (''participants_count'', c_participants_count c), (''icon'', c_icon c),
        (''is_public'', c_is_public c), (''description'', c_description c),
        (''owner_id'', c_owner_id c), (''participants'', c_participants c),
        (''link'', c_link c), (''dialog_with_user'', d_dialog),
        (''chat_message_id'', c_chat_message_id c), (''pinned_message'', d_pinned)])))"

subsection \<open>ChatMember, ChatAdmin\<close>

record ChatMember = UserWithPhoto +
  last_access_time :: json
  is_owner :: json
  is_admin :: json
  join_time :: json
  permissions :: "json list option"

definition ChatMember_from_dict :: "json \<Rightarrow> exn + ChatMember" where
  "ChatMember_from_dict data =
     bnd (UserWithPhoto_from_dict data) (\<lambda>base.
     bnd (getitem data ''last_access_time'') (\<lambda>v_last_access_time.
     bnd (getitem data ''is_owner'') (\<lambda>v_is_owner.
     bnd (getitem data ''is_admin'') (\<lambda>v_is_admin.
     bnd (getitem data ''join_time'') (\<lambda>v_join_time.
     bnd (get data ''permissions'') (\<lambda>p.
     bnd (if p \<noteq> JNull
          then bnd (getitem data ''permissions'') (\<lambda>raw.
               bnd (py_list raw) (\<lambda>xs. Inr (Some xs)))
          else Inr None) (\<lambda>v_permissions.
     Inr \<lparr>user_id = user_id base, first_name = first_name base, last_name = last_name base,
          username = username base, is_bot = is_bot base,
          last_activity_time = last_activity_time base, name = name base,
          description = description base, avatar_url = avatar_url base,
          full_avatar_url = full_avatar_url base,
          last_access_time = v_last_access_time, is_owner = v_is_owner,
          is_admin = v_is_admin, join_time = v_join_time,
          permissions = v_permissions\<rparr>)))))))"

definition ChatMember_to_dict :: "ChatMember \<Rightarrow> (string, json) fmap" where
  "ChatMember_to_dict u =
     UserWithPhoto_to_dict u ++\<^sub>f fmap_of_list
       [(''last_access_time'', last_access_time u), (''is_owner'', is_owner u),
        (''is_admin'', is_admin u), (''join_time'', join_time u),
        (''permissions'', (case permissions u of None \<Rightarrow> JNull | Some xs \<Rightarrow> JList xs))]"

record ChatAdmin =
  adm_user_id :: json
  adm_permissions :: "json list"

definition ChatAdmin_from_dict :: "json \<Rightarrow> exn + ChatAdmin" where
  "ChatAdmin_from_dict data =
     bnd (getitem data ''user_id'') (\<lambda>v_user_id.
     bnd (get data ''permissions'') (\<lambda>raw.
     bnd (py_list (or_else raw (JList []))) (\<lambda>v_permissions.
     Inr \<lparr>adm_user_id = v_user_id, adm_permissions = v_permissions\<rparr>)))"

definition ChatAdmin_to_dict :: "ChatAdmin \<Rightarrow> (string, json) fmap" where
  "ChatAdmin_to_dict a = fmap_of_list
     [(''user_id'', adm_user_id a), (''permissions'', JList (adm_permissions a))]"

subsection \<open>Update\<close>

record Update =
  u_update_type :: json
  u_timestamp :: json
  u_payload :: "(string, json) fmap"

text \<open>\<open>data.items()\<close> exists on a dict only; the two subscripts come first.\<close>

definition Update_from_dict :: "json \<Rightarrow> exn + Update" where
  "Update_from_dict data =
     bnd (getitem data ''update_type'') (\<lambda>v_update_type.
     bnd (getitem data ''timestamp'') (\<lambda>v_timestamp.
     (case data of
        JObj m \<Rightarrow>
          Inr \<lparr>u_update_type = v_update_type, u_timestamp = v_timestamp,
               u_payload = fmfilter (\<lambda>k. k \<noteq> ''update_type'' \<and> k \<noteq> ''timestamp'') m\<rparr>
      | _ \<Rightarrow> Inl AttributeError)))"

definition Update_to_dict :: "Update \<Rightarrow> (string, json) fmap" where
  "Update_to_dict u =
     (let data = u_payload u;
          data = fmupd ''update_type'' (u_update_type u) data;
          data = fmupd ''timestamp'' (u_timestamp u) data
      in data)"

section \<open>api.py\<close>

subsection \<open>Strings\<close>

text \<open>\<open>s.startswith(p)\<close>.\<close>

fun startswith :: "string \<Rightarrow> string \<Rightarrow> bool" where
  "startswith s [] = True"
| "startswith [] (p # ps) = False"
| "startswith (c # cs) (p # ps) = (c = p \<and> startswith cs ps)"

text \<open>\<open>sub in s\<close> for strings.\<close>

fun contains :: "string \<Rightarrow> string \<Rightarrow> bool" where
  "contains sub [] = (sub = [])"
| "contains sub (c # cs) = (startswith (c # cs) sub \<or> contains sub cs)"

text \<open>\<open>s.rstrip(c)\<close> for a single character \<open>c\<close>: every trailing \<open>c\<close> is removed.\<close>

definition rstrip :: "string \<Rightarrow> char \<Rightarrow> string" where
  "rstrip s c = rev (dropWhile (\<lambda>x. x = c) (rev s))"

text \<open>\<open>s.upper()\<close> on the ASCII letters, which is all an HTTP method holds.\<close>

definition upper_char :: "char \<Rightarrow> char" where
  "upper_char c =
     (case map_of (zip ''abcdefghijklmnopqrstuvwxyz'' ''ABCDEFGHIJKLMNOPQRSTUVWXYZ'') c of
        None \<Rightarrow> c
      | Some d \<Rightarrow> d)"

definition upper :: "string \<Rightarrow> string" where
  "upper s = map upper_char s"

subsection \<open>The client and the transport\<close>

text \<open>
  The attributes \<open>_access_token\<close>, \<open>_base_url\<close>, \<open>_timeout\<close>, \<open>_use_models\<close> of the
  client. The attribute \<open>_session\<close> is the transport; it is the only mutable part and is
  passed beside the client.
\<close>

record MaxBotAPI =
  access_token :: string
  base_url :: string
  timeout :: "real option"
  use_models :: bool

definition DEFAULT_BASE_URL :: string where
  "DEFAULT_BASE_URL = ''https://platform-api.max.ru''"

definition MaxBotAPI_init :: "string \<Rightarrow> string \<Rightarrow> real option \<Rightarrow> bool \<Rightarrow> MaxBotAPI" where
  "MaxBotAPI_init v_access_token v_base_url v_timeout v_use_models =
     \<lparr>access_token = v_access_token, base_url = rstrip v_base_url CHR ''/'',
      timeout = v_timeout, use_models = v_use_models\<rparr>"

text \<open>The keyword arguments of \<open>Session.request\<close>.\<close>

record request =
  req_method :: string
  req_url :: string
  req_params :: "(string, json) fmap"
  req_json :: json
  req_timeout :: "real option"

text \<open>
  What the client reads of a \<open>requests.Response\<close>: \<open>status_code\<close>, \<open>headers\<close>,
  \<open>text\<close>, and the outcome of \<open>json()\<close>, where \<open>None\<close> stands for the ValueError of a
  body that does not parse.
  The headers are keyed by the spelling the client asks for (\<open>Content-Type\<close>); the
  library's lookup ignores case.
\<close>

record response =
  resp_status_code :: int
  resp_headers :: "(string, string) fmap"
  resp_text :: string
  resp_json :: "json option"

text \<open>
  \<open>Response.ok\<close> belongs to the requests library, not to this repository: it is False
  exactly when \<open>raise_for_status\<close> raises, that is for a status from 400 to 599. The
  docstrings of \<open>_request\<close> and \<open>MaxAPIError\<close> name the same statuses (4xx and 5xx).
\<close>

definition resp_ok :: "response \<Rightarrow> bool" where
  "resp_ok resp = (\<not> (400 \<le> resp_status_code resp \<and> resp_status_code resp < 600))"

text \<open>
  The session: how the transport answers a request (a response, or an exception), and the
  requests handed to it so far, oldest first.
\<close>

record session =
  respond :: "request \<Rightarrow> exn + response"
  sent :: "request list"

definition session_request :: "session \<Rightarrow> request \<Rightarrow> (exn + response) \<times> session" where
  "session_request s req = (respond s req, s\<lparr>sent := sent s @ [req]\<rparr>)"

subsection \<open>MaxBotAPI\<close>

definition build_url :: "MaxBotAPI \<Rightarrow> string \<Rightarrow> string" where
  "build_url self path =
     (let path = (if \<not> startswith path ''/'' then ''/'' @ path else path)
      in base_url self @ path)"

definition should_use_models :: "MaxBotAPI \<Rightarrow> bool option \<Rightarrow> bool" where
  "should_use_models self as_models =
     (case as_models of None \<Rightarrow> use_models self | Some b \<Rightarrow> b)"

text \<open>\<open>d.setdefault(k, v)\<close>: the value is stored only when the key is absent.\<close>

definition setdefault :: "(string, json) fmap \<Rightarrow> string \<Rightarrow> json \<Rightarrow> (string, json) fmap" where
  "setdefault d k v = (if k |\<in>| fmdom d then d else fmupd k v d)"

text \<open>The query of \<open>_request\<close>: the caller's parameters, then the token by \<open>setdefault\<close>.\<close>

definition request_query ::
  "MaxBotAPI \<Rightarrow> (string, json) fmap option \<Rightarrow> (string, json) fmap" where
  "request_query self params =
     (let query = fmempty;
          query = (case params of
                     None \<Rightarrow> query
                   | Some p \<Rightarrow> if p \<noteq> fmempty then query ++\<^sub>f p else query)
      in setdefault query ''access_token'' (JStr (access_token self)))"

text \<open>The parsed body \<open>data\<close> of \<open>_request\<close>.\<close>

definition response_data :: "response \<Rightarrow> json" where
  "response_data resp =
     (let content_type =
            (case fmlookup (resp_headers resp) ''Content-Type'' of None \<Rightarrow> [] | Some v \<Rightarrow> v)
      in if contains ''application/json'' content_type
         then (case resp_json resp of None \<Rightarrow> JNull | Some v \<Rightarrow> v)
         else JNull)"

text \<open>The part of \<open>_request\<close> after the transport has answered.\<close>

definition handle_response :: "response \<Rightarrow> exn + json" where
  "handle_response resp =
     (let data = response_data resp in
      if \<not> resp_ok resp then
        (let v_error_code = JNull;
             v_message = JNull;
             v_error_code = (if is_Mapping data
                             then (case get data ''code'' of Inr v \<Rightarrow> v | Inl e \<Rightarrow> JNull)
                             else v_error_code);
             v_message = (if is_Mapping data
                          then (case get data ''message'' of Inr v \<Rightarrow> v | Inl e \<Rightarrow> JNull)
                          else v_message)
         in Inl (MaxAPIError_exn
              \<lparr>status_code = resp_status_code resp, error_code = v_error_code,
               message = v_message,
               details = (if is_Mapping data then data else JNull)\<rparr>))
      else Inr (if data \<noteq> JNull then data else JStr (resp_text resp)))"

definition MaxBotAPI_request ::
  "MaxBotAPI \<Rightarrow> session \<Rightarrow> string \<Rightarrow> string \<Rightarrow> (string, json) fmap option \<Rightarrow> json
     \<Rightarrow> real option \<Rightarrow> (exn + json) \<times> session" where
  "MaxBotAPI_request self s method path params json_body v_timeout =
     (let url = build_url self path;
          query = request_query self params;
          (r, s') = session_request s
            \<lparr>req_method = upper method, req_url = url, req_params = query,
             req_json = json_body,
             req_timeout = (case v_timeout of Some t \<Rightarrow> Some t | None \<Rightarrow> timeout self)\<rparr>
      in (bnd r handle_response, s'))"

text \<open>What a wrapper returns: the raw JSON, or a model when models are asked for.\<close>

datatype reply = Raw json | Model_Message Message

text \<open>The query parameters and the JSON body that \<open>send_message\<close> assembles.\<close>

definition send_message_params ::
  "int option \<Rightarrow> int option \<Rightarrow> bool option \<Rightarrow> (string, json) fmap" where
  "send_message_params chat_id v_user_id disable_link_preview =
     (let params = fmempty;
          params = (case v_user_id of Some u \<Rightarrow> fmupd ''user_id'' (JInt u) params
                    | None \<Rightarrow> params);
          params = (case chat_id of Some c \<Rightarrow> fmupd ''chat_id'' (JInt c) params
                    | None \<Rightarrow> params);
          params = (case disable_link_preview of
                      Some b \<Rightarrow> fmupd ''disable_link_preview'' (JBool b) params
                    | None \<Rightarrow> params)
      in params)"

definition send_message_body ::
  "string option \<Rightarrow> json list option \<Rightarrow> (string, json) fmap option \<Rightarrow> (string, json) fmap" where
  "send_message_body text attachments extra =
     (let body = fmempty;
          body = (case text of Some t \<Rightarrow> fmupd ''text'' (JStr t) body | None \<Rightarrow> body);
          body = (case attachments of Some xs \<Rightarrow> fmupd ''attachments'' (JList xs) body
                  | None \<Rightarrow> body);
          body = (case extra of
                    Some e \<Rightarrow> if e \<noteq> fmempty then body ++\<^sub>f e else body
                  | None \<Rightarrow> body)
      in body)"

text \<open>The last step of \<open>send_message\<close>: the reply as a model, when models are asked for.\<close>

definition send_message_result :: "MaxBotAPI \<Rightarrow> bool option \<Rightarrow> json \<Rightarrow> exn + reply" where
  "send_message_result self as_models data =
     (if should_use_models self as_models \<and> is_Mapping data then
        bnd (get data ''message'') (\<lambda>msg.
          if is_Mapping msg
          then bnd (Message_from_dict msg) (\<lambda>m. Inr (Model_Message m))
          else Inr (Raw data))
      else Inr (Raw data))"

definition send_message ::
  "MaxBotAPI \<Rightarrow> session \<Rightarrow> int option \<Rightarrow> int option \<Rightarrow> string option \<Rightarrow> json list option
     \<Rightarrow> bool option \<Rightarrow> (string, json) fmap option \<Rightarrow> bool option
     \<Rightarrow> (exn + reply) \<times> session" where
  "send_message self s chat_id v_user_id text attachments disable_link_preview extra as_models =
     (if chat_id = None \<and> v_user_id = None then (Inl ValueError, s)
      else
        let params = send_message_params chat_id v_user_id disable_link_preview;
            body = send_message_body text attachments extra;
            (data, s') = MaxBotAPI_request self s ''POST'' ''/messages'' (Some params)
                           (JObj body) None
        in (bnd data (send_message_result self as_models), s'))"

subsection \<open>Values that decoding gives back\<close>

text \<open>
  The conditions under which the decoders return the encoded value. An attachment list
  holds instances of the base class only; the payload of a \<open>LocationAttachment\<close> is a
  dict that already has both coordinates with the values of the two fields; the
  \<open>participants\<close> of a chat are \<open>None\<close> or a dict, as annotated; the payload of an
  \<open>Update\<close> has neither of the two keys that \<open>to_dict\<close> sets itself.
\<close>

fun is_base :: "attachment_obj \<Rightarrow> bool" where
  "is_base (Attachment_obj a) = True"
| "is_base (LocationAttachment_obj a) = False"

definition payload_has_coordinates :: "LocationAttachment \<Rightarrow> bool" where
  "payload_has_coordinates a =
     (case a_payload a of
        JObj p \<Rightarrow> fmlookup p ''latitude'' = Some (latitude a)
                  \<and> fmlookup p ''longitude'' = Some (longitude a)
      | _ \<Rightarrow> False)"

definition base_body :: "MessageBody \<Rightarrow> bool" where
  "base_body b = list_all is_base (b_attachments b)"

definition base_linked :: "LinkedMessage \<Rightarrow> bool" where
  "base_linked l = base_body (l_message l)"

definition base_message :: "Message \<Rightarrow> bool" where
  "base_message m =
     (base_body (m_body m)
      \<and> (case m_link m of None \<Rightarrow> True | Some l \<Rightarrow> base_linked l))"

definition base_chat :: "Chat \<Rightarrow> bool" where
  "base_chat c =
     ((c_participants c = JNull \<or> is_Mapping (c_participants c))
      \<and> (case c_pinned_message c of None \<Rightarrow> True | Some m \<Rightarrow> base_message m))"

definition free_payload :: "Update \<Rightarrow> bool" where
  "free_payload u =
     (fmlookup (u_payload u) ''update_type'' = None
      \<and> fmlookup (u_payload u) ''timestamp'' = None)"

section \<open>Properties of the request executor\<close>

lemma request_unfold:
  "MaxBotAPI_request self s method path params json_body v_timeout =
     (bnd (respond s
        \<lparr>req_method = upper method, req_url = build_url self path,
         req_params = request_query self params, req_json = json_body,
         req_timeout = (case v_timeout of Some t \<Rightarrow> Some t | None \<Rightarrow> timeout self)\<rparr>)
        handle_response,
      s\<lparr>sent := sent s @
        [\<lparr>req_method = upper method, req_url = build_url self path,
          req_params = request_query self params, req_json = json_body,
          req_timeout = (case v_timeout of Some t \<Rightarrow> Some t | None \<Rightarrow> timeout self)\<rparr>]\<rparr>)"
  by (simp add: MaxBotAPI_request_def session_request_def Let_def)

lemma request_answered:
  "respond s = (\<lambda>req. Inr resp) \<Longrightarrow>
   fst (MaxBotAPI_request self s method path params json_body v_timeout) = handle_response resp"
  by (simp add: request_unfold bnd_def)

lemma rstrip_no_trailing: "rstrip s c = [] \<or> last (rstrip s c) \<noteq> c"
  unfolding rstrip_def
  by (metis (mono_tags, lifting) hd_dropWhile last_rev rev_is_Nil_conv)

lemma startswith_slash: "startswith p ''/'' \<Longrightarrow> p = CHR ''/'' # tl p"
  by (cases p) auto



text \<open>
  Claim C10. On a 2xx response whose Content-Type contains \<open>application/json\<close>, a body
  that parses to \<open>null\<close> and a body that does not parse give the same result, the raw
  text; only a parsed value other than \<open>null\<close> is returned as data.
\<close>

theorem request_null_json_is_text:
  assumes "respond s = (\<lambda>req. Inr resp)"
    and "200 \<le> resp_status_code resp" and "resp_status_code resp < 300"
    and "fmlookup (resp_headers resp) ''Content-Type'' = Some ct"
    and "contains ''application/json'' ct"
  shows "fst (MaxBotAPI_request self s method path params json_body v_timeout) =
     Inr (case resp_json resp of
            None \<Rightarrow> JStr (resp_text resp)
          | Some v \<Rightarrow> if v = JNull then JStr (resp_text resp) else v)"
  using assms
  by (simp add: request_answered handle_response_def response_data_def resp_ok_def Let_def
      split: option.splits)

theorem request_null_json_is_text_witness:
  "fst (MaxBotAPI_request (MaxBotAPI_init ''tok'' DEFAULT_BASE_URL None False)
     \<lparr>respond = (\<lambda>req. Inr \<lparr>resp_status_code = 200,
         resp_headers = fmap_of_list [(''Content-Type'', ''application/json; charset=utf-8'')],
         resp_text = ''null'', resp_json = Some JNull\<rparr>), sent = []\<rparr>
     ''GET'' ''/me'' None JNull None) = Inr (JStr ''null'')
   \<and> fst (MaxBotAPI_request (MaxBotAPI_init ''tok'' DEFAULT_BASE_URL None False)
     \<lparr>respond = (\<lambda>req. Inr \<lparr>resp_status_code = 200,
         resp_headers = fmap_of_list [(''Content-Type'', ''application/json; charset=utf-8'')],
         resp_text = ''{oops'', resp_json = None\<rparr>), sent = []\<rparr>
     ''GET'' ''/me'' None JNull None) = Inr (JStr ''{oops'')
   \<and> fst (MaxBotAPI_request (MaxBotAPI_init ''tok'' DEFAULT_BASE_URL None False)
     \<lparr>respond = (\<lambda>req. Inr \<lparr>resp_status_code = 200,
         resp_headers = fmap_of_list [(''Content-Type'', ''application/json; charset=utf-8'')],
         resp_text = ''7'', resp_json = Some (JInt 7)\<rparr>), sent = []\<rparr>
     ''GET'' ''/me'' None JNull None) = Inr (JInt 7)"
proof -
  let ?h = "fmap_of_list [(''Content-Type'', ''application/json; charset=utf-8'')]"
  have ct: "fmlookup ?h ''Content-Type'' = Some ''application/json; charset=utf-8''"
    by simp
  have c: "contains ''application/json'' ''application/json; charset=utf-8''"
    by simp
  show ?thesis
    using request_null_json_is_text[of _ "\<lparr>resp_status_code = 200, resp_headers = ?h,
            resp_text = ''null'', resp_json = Some JNull\<rparr>", OF _ _ _ _ c]
      request_null_json_is_text[of _ "\<lparr>resp_status_code = 200, resp_headers = ?h,
            resp_text = ''{oops'', resp_json = None\<rparr>", OF _ _ _ _ c]
      request_null_json_is_text[of _ "\<lparr>resp_status_code = 200, resp_headers = ?h,
            resp_text = ''7'', resp_json = Some (JInt 7)\<rparr>", OF _ _ _ _ c]
    by simp
qed

text \<open>
  Claim C6. When the response is a failure, the error carries the status code; when the
  parsed body \<open>data\<close> is a mapping, \<open>error_code\<close> and \<open>message\<close> are its \<open>code\<close> and
  \<open>message\<close> entries (null when absent) and \<open>details\<close> is the mapping; otherwise the three
  are null. A body that does not parse leaves \<open>data\<close> null.
\<close>

theorem request_failure_error:
  assumes "respond s = (\<lambda>req. Inr resp)" and "\<not> resp_ok resp"
  shows "fst (MaxBotAPI_request self s method path params json_body v_timeout) =
     Inl (MaxAPIError_exn
       (case response_data resp of
          JObj m \<Rightarrow>
            \<lparr>status_code = resp_status_code resp,
             error_code = (case fmlookup m ''code'' of None \<Rightarrow> JNull | Some v \<Rightarrow> v),
             message = (case fmlookup m ''message'' of None \<Rightarrow> JNull | Some v \<Rightarrow> v),
             details = JObj m\<rparr>
        | _ \<Rightarrow>
            \<lparr>status_code = resp_status_code resp, error_code = JNull, message = JNull,
             details = JNull\<rparr>))
     \<and> (resp_json resp = None \<longrightarrow> response_data resp = JNull)"
proof -
  have unparsed: "resp_json resp = None \<longrightarrow> response_data resp = JNull"
    by (simp add: response_data_def Let_def)
  have "fst (MaxBotAPI_request self s method path params json_body v_timeout) =
     handle_response resp"
    using assms(1) by (rule request_answered)
  then show ?thesis
    using assms(2) unparsed
    by (cases "response_data resp") (simp_all add: handle_response_def get_def Let_def)
qed

theorem request_failure_error_witness:
  "fst (MaxBotAPI_request (MaxBotAPI_init ''tok'' DEFAULT_BASE_URL None False)
     \<lparr>respond = (\<lambda>req. Inr \<lparr>resp_status_code = 404,
         resp_headers = fmap_of_list [(''Content-Type'', ''application/json'')],
         resp_text = ''(the JSON text)'',
         resp_json = Some (JObj (fmap_of_list
           [(''code'', JStr ''chat_not_found''), (''message'', JStr ''no such chat'')]))\<rparr>),
       sent = []\<rparr>
     ''GET'' ''/chats/1'' None JNull None) =
   Inl (MaxAPIError_exn \<lparr>status_code = 404, error_code = JStr ''chat_not_found'',
     message = JStr ''no such chat'',
     details = JObj (fmap_of_list
       [(''code'', JStr ''chat_not_found''), (''message'', JStr ''no such chat'')])\<rparr>)
   \<and> fst (MaxBotAPI_request (MaxBotAPI_init ''tok'' DEFAULT_BASE_URL None False)
     \<lparr>respond = (\<lambda>req. Inr \<lparr>resp_status_code = 502,
         resp_headers = fmap_of_list [(''Content-Type'', ''text/html'')],
         resp_text = ''Bad Gateway'', resp_json = None\<rparr>), sent = []\<rparr>
     ''GET'' ''/me'' None JNull None) =
   Inl (MaxAPIError_exn \<lparr>status_code = 502, error_code = JNull, message = JNull,
     details = JNull\<rparr>)"
  using request_failure_error[of _ "\<lparr>resp_status_code = 404,
         resp_headers = fmap_of_list [(''Content-Type'', ''application/json'')],
         resp_text = ''(the JSON text)'',
         resp_json = Some (JObj (fmap_of_list
           [(''code'', JStr ''chat_not_found''), (''message'', JStr ''no such chat'')]))\<rparr>"]
    request_failure_error[of _ "\<lparr>resp_status_code = 502,
         resp_headers = fmap_of_list [(''Content-Type'', ''text/html'')],
         resp_text = ''Bad Gateway'', resp_json = None\<rparr>"]
  by (simp add: resp_ok_def response_data_def)

section \<open>Properties of send_message\<close>

lemma send_message_none:
  "send_message self s None None v_text attachments dlp extra as_models = (Inl ValueError, s)"
  by (simp add: send_message_def)

lemma send_message_sent:
  assumes "\<not> (chat_id = None \<and> uid = None)"
  shows "\<exists>req. snd (send_message self s chat_id uid v_text attachments dlp extra as_models)
             = s\<lparr>sent := sent s @ [req]\<rparr>
           \<and> req_method req = ''POST''
           \<and> req_url req = base_url self @ ''/messages''"
  using assms
  by (auto simp: send_message_def Let_def request_unfold build_url_def upper_def upper_char_def)

lemma sent_grows: "s\<lparr>sent := sent s @ [req]\<rparr> \<noteq> s"
proof
  assume "s\<lparr>sent := sent s @ [req]\<rparr> = s"
  then have "sent (s\<lparr>sent := sent s @ [req]\<rparr>) = sent s" by simp
  then show False by simp
qed

text \<open>
  Claim C9. \<open>send_message\<close> raises ValueError with the session untouched exactly when
  \<open>chat_id\<close> and \<open>user_id\<close> are both \<open>None\<close>; when one of them is given, one POST request
  to \<open>/messages\<close> is handed to the transport.
\<close>

theorem send_message_ValueError:
  "((fst (send_message self s chat_id uid v_text attachments dlp extra as_models)
        = Inl ValueError
      \<and> snd (send_message self s chat_id uid v_text attachments dlp extra as_models) = s)
     = (chat_id = None \<and> uid = None))
   \<and> (\<not> (chat_id = None \<and> uid = None) \<longrightarrow>
        (\<exists>req. sent (snd (send_message self s chat_id uid v_text attachments dlp extra
                            as_models))
                 = sent s @ [req]
           \<and> req_method req = ''POST''
           \<and> req_url req = base_url self @ ''/messages''))"
proof (cases "chat_id = None \<and> uid = None")
  case True
  then show ?thesis by (simp add: send_message_none)
next
  case False
  from send_message_sent[OF False]
  obtain req where r:
    "snd (send_message self s chat_id uid v_text attachments dlp extra as_models)
       = s\<lparr>sent := sent s @ [req]\<rparr>"
    "req_method req = ''POST''" "req_url req = base_url self @ ''/messages''"
    by blast
  have "snd (send_message self s chat_id uid v_text attachments dlp extra as_models) \<noteq> s"
    using r(1) sent_grows by metis
  moreover have
    "\<exists>req. sent (snd (send_message self s chat_id uid v_text attachments dlp extra as_models))
                 = sent s @ [req]
           \<and> req_method req = ''POST''
           \<and> req_url req = base_url self @ ''/messages''"
    using r by (intro exI[of _ req]) simp
  ultimately show ?thesis using False by blast
qed

theorem send_message_ValueError_witness:
  "send_message (MaxBotAPI_init ''tok'' ''https://h/'' None False)
     \<lparr>respond = (\<lambda>req. Inl ConnectionError), sent = []\<rparr>
     None None (Some ''hi'') None None None None
   = (Inl ValueError, \<lparr>respond = (\<lambda>req. Inl ConnectionError), sent = []\<rparr>)
   \<and> length (sent (snd (send_message (MaxBotAPI_init ''tok'' ''https://h/'' None False)
     \<lparr>respond = (\<lambda>req. Inl ConnectionError), sent = []\<rparr>
     (Some 5) None (Some ''hi'') None None None None))) = 1"
  using send_message_ValueError[of "MaxBotAPI_init ''tok'' ''https://h/'' None False"
      "\<lparr>respond = (\<lambda>req. Inl ConnectionError), sent = []\<rparr>"
      None None "Some ''hi''" None None None None]
    send_message_ValueError[of "MaxBotAPI_init ''tok'' ''https://h/'' None False"
      "\<lparr>respond = (\<lambda>req. Inl ConnectionError), sent = []\<rparr>"
      "Some 5" None "Some ''hi''" None None None None]
  by (auto simp: prod_eq_iff)

section \<open>Properties of the codec\<close>

text \<open>
  Claim C7. For every mapping that has the keys \<open>update_type\<close> and \<open>timestamp\<close>,
  decoding it as an Update and encoding the result gives the mapping back; the payload
  of the decoded Update is the mapping without those two keys.
\<close>

theorem Update_roundtrip:
  assumes "fmlookup m ''update_type'' = Some t" and "fmlookup m ''timestamp'' = Some ts"
  shows "map_sum id Update_to_dict (Update_from_dict (JObj m)) = Inr m
    \<and> map_sum id u_payload (Update_from_dict (JObj m))
        = Inr (fmfilter (\<lambda>k. k \<noteq> ''update_type'' \<and> k \<noteq> ''timestamp'') m)"
proof -
  have "fmupd ''timestamp'' ts (fmupd ''update_type'' t
          (fmfilter (\<lambda>k. k \<noteq> ''update_type'' \<and> k \<noteq> ''timestamp'') m)) = m"
    using assms by (intro fmap_ext) auto
  then show ?thesis
    using assms by (simp add: Update_from_dict_def Update_to_dict_def bnd_def Let_def)
qed

theorem Update_roundtrip_witness:
  "map_sum id Update_to_dict (Update_from_dict (JObj (fmap_of_list
     [(''update_type'', JStr ''bot_started''), (''timestamp'', JInt 17),
      (''chat_id'', JInt 5), (''user'', JObj (fmap_of_list [(''user_id'', JInt 9)]))])))
   = Inr (fmap_of_list
     [(''update_type'', JStr ''bot_started''), (''timestamp'', JInt 17),
      (''chat_id'', JInt 5), (''user'', JObj (fmap_of_list [(''user_id'', JInt 9)]))])"
  using Update_roundtrip[of "fmap_of_list
     [(''update_type'', JStr ''bot_started''), (''timestamp'', JInt 17),
      (''chat_id'', JInt 5), (''user'', JObj (fmap_of_list [(''user_id'', JInt 9)]))]"
     "JStr ''bot_started''" "JInt 17"]
  by simp

section \<open>The query and the outcome of a request\<close>

lemma request_query_lookup:
  "fmlookup (request_query self params) k =
     (case (case params of None \<Rightarrow> None | Some p \<Rightarrow> fmlookup p k) of
        Some v \<Rightarrow> Some v
      | None \<Rightarrow> if k = ''access_token'' then Some (JStr (access_token self)) else None)"
  by (auto simp: request_query_def setdefault_def Let_def fmlookup_dom_iff
      split: option.splits)




text \<open>
  Claim C3 fails as stated: a response with status 304 is not a failure; the call returns
  the response text.
\<close>

theorem request_3xx_is_success:
  "fst (MaxBotAPI_request (MaxBotAPI_init ''tok'' ''https://h'' None False)
     \<lparr>respond = (\<lambda>req. Inr \<lparr>resp_status_code = 304, resp_headers = fmempty,
         resp_text = ''not modified'', resp_json = None\<rparr>), sent = []\<rparr>
     ''GET'' ''/me'' None JNull None) = Inr (JStr ''not modified'')"
  by (simp add: request_answered handle_response_def response_data_def resp_ok_def)

text \<open>
  Claim C3, as the code has it. A status from 400 to 599 raises \<open>MaxAPIError\<close> with that
  status, whatever the body. Every other status, 3xx included, returns the parsed body
  when there is one and it is not null, and the raw text otherwise; there is no parsed
  body when the body does not parse or no Content-Type is reported.
\<close>

theorem request_outcome:
  assumes "respond s = (\<lambda>req. Inr resp)"
  shows "(400 \<le> resp_status_code resp \<and> resp_status_code resp < 600 \<longrightarrow>
           (\<exists>err. fst (MaxBotAPI_request self s method path params json_body v_timeout)
                    = Inl (MaxAPIError_exn err)
                  \<and> status_code err = resp_status_code resp))
    \<and> (\<not> (400 \<le> resp_status_code resp \<and> resp_status_code resp < 600) \<longrightarrow>
           fst (MaxBotAPI_request self s method path params json_body v_timeout)
             = Inr (if response_data resp \<noteq> JNull then response_data resp
                    else JStr (resp_text resp)))
    \<and> (resp_json resp = None \<longrightarrow> response_data resp = JNull)
    \<and> (fmlookup (resp_headers resp) ''Content-Type'' = None \<longrightarrow> response_data resp = JNull)"
  using assms
  by (simp add: request_answered handle_response_def resp_ok_def Let_def response_data_def)

theorem request_outcome_witness:
  "fst (MaxBotAPI_request (MaxBotAPI_init ''tok'' ''https://h'' None False)
     \<lparr>respond = (\<lambda>req. Inr \<lparr>resp_status_code = 200,
         resp_headers = fmap_of_list [(''Content-Type'', ''text/plain'')],
         resp_text = ''ok'', resp_json = None\<rparr>), sent = []\<rparr>
     ''GET'' ''/me'' None JNull None) = Inr (JStr ''ok'')
   \<and> isl (fst (MaxBotAPI_request (MaxBotAPI_init ''tok'' ''https://h'' None False)
     \<lparr>respond = (\<lambda>req. Inr \<lparr>resp_status_code = 500,
         resp_headers = fmap_of_list [(''Content-Type'', ''text/plain'')],
         resp_text = ''ok'', resp_json = None\<rparr>), sent = []\<rparr>
     ''GET'' ''/me'' None JNull None))"
  using request_outcome[of "\<lparr>respond = (\<lambda>req. Inr \<lparr>resp_status_code = 200,
         resp_headers = fmap_of_list [(''Content-Type'', ''text/plain'')],
         resp_text = ''ok'', resp_json = None\<rparr>), sent = []\<rparr>"
       "\<lparr>resp_status_code = 200,
         resp_headers = fmap_of_list [(''Content-Type'', ''text/plain'')],
         resp_text = ''ok'', resp_json = None\<rparr>"
       "MaxBotAPI_init ''tok'' ''https://h'' None False" "''GET''" "''/me''" None JNull None]
    request_outcome[of "\<lparr>respond = (\<lambda>req. Inr \<lparr>resp_status_code = 500,
         resp_headers = fmap_of_list [(''Content-Type'', ''text/plain'')],
         resp_text = ''ok'', resp_json = None\<rparr>), sent = []\<rparr>"
       "\<lparr>resp_status_code = 500,
         resp_headers = fmap_of_list [(''Content-Type'', ''text/plain'')],
         resp_text = ''ok'', resp_json = None\<rparr>"
       "MaxBotAPI_init ''tok'' ''https://h'' None False" "''GET''" "''/me''" None JNull None]
  by auto

section \<open>Decoding attachments\<close>

lemma bnd_Inr [simp]: "bnd (Inr x) f = f x"
  by (simp add: bnd_def)

lemma bnd_Inl [simp]: "bnd (Inl e) f = Inl e"
  by (simp add: bnd_def)

lemma get_JObj [simp]:
  "get (JObj m) k = Inr (case fmlookup m k of None \<Rightarrow> JNull | Some v \<Rightarrow> v)"
  by (simp add: get_def)

lemma or_else_JObj [simp]: "or_else (JObj p) (JObj fmempty) = JObj p"
  by (simp add: or_else_def)

lemma or_else_JList [simp]: "or_else (JList xs) (JList []) = JList xs"
  by (simp add: or_else_def)

lemma map_exn_base:
  "map_exn (\<lambda>a. bnd (Attachment_from_dict a) (\<lambda>x. Inr (Attachment_obj x))) xs
     = bnd (map_exn Attachment_from_dict xs) (\<lambda>ys. Inr (map Attachment_obj ys))"
proof (induction xs)
  case Nil
  then show ?case by simp
next
  case (Cons x xs)
  then show ?case
    by (cases "Attachment_from_dict x"; cases "map_exn Attachment_from_dict xs") simp_all
qed

text \<open>
  Claim C5 fails as stated: inside a message body an attachment of type \<open>location\<close> is
  decoded as a base \<open>Attachment\<close>, not as a \<open>LocationAttachment\<close>.
\<close>

theorem MessageBody_location_decodes_as_base:
  "MessageBody_from_dict (JObj (fmap_of_list
     [(''mid'', JStr ''m1''), (''seq'', JInt 1),
      (''attachments'', JList [JObj (fmap_of_list
         [(''type'', JStr ''location''),
          (''payload'', JObj (fmap_of_list
             [(''latitude'', JFloat 1.5), (''longitude'', JFloat 2.5)]))])])]))
   = Inr \<lparr>b_mid = JStr ''m1'', b_seq = JInt 1, b_text = JNull,
       b_attachments = [Attachment_obj
         \<lparr>a_type = JStr ''location'',
          a_payload = JObj (fmap_of_list
             [(''latitude'', JFloat 1.5), (''longitude'', JFloat 2.5)])\<rparr>],
       b_markup = JNull\<rparr>"
  by (simp add: MessageBody_from_dict_def Attachment_from_dict_def or_else_def)

text \<open>
  Claim C5, as the code has it. \<open>Attachment.from_dict\<close> gives the base representation for
  every type, \<open>location\<close> included. \<open>LocationAttachment.from_dict\<close> takes latitude and
  longitude from the payload (0.0 when absent), whatever the type. Encoding a
  \<open>LocationAttachment\<close> writes both keys into the payload. \<open>MessageBody.from_dict\<close> decodes
  its attachments one by one with \<open>Attachment.from_dict\<close>.
\<close>

theorem attachment_decoding:
  "(fmlookup m ''type'' = Some t \<longrightarrow>
      Attachment_from_dict (JObj m)
        = Inr \<lparr>a_type = t,
               a_payload = (case fmlookup m ''payload'' of None \<Rightarrow> JNull | Some v \<Rightarrow> v)\<rparr>)
   \<and> (fmlookup m ''type'' = Some t \<and> fmlookup m ''payload'' = Some (JObj p) \<longrightarrow>
      LocationAttachment_from_dict (JObj m)
        = Inr \<lparr>a_type = t, a_payload = JObj p,
               latitude = (case fmlookup p ''latitude'' of None \<Rightarrow> JFloat 0 | Some v \<Rightarrow> v),
               longitude = (case fmlookup p ''longitude'' of None \<Rightarrow> JFloat 0 | Some v \<Rightarrow> v)\<rparr>)
   \<and> (a_payload loc = JObj p \<longrightarrow>
      LocationAttachment_to_dict loc
        = Inr (fmap_of_list
            [(''type'', a_type loc),
             (''payload'', JObj (fmupd ''longitude'' (longitude loc)
                                  (fmupd ''latitude'' (latitude loc) p)))]))
   \<and> (fmlookup b ''attachments'' = Some (JList xs) \<and> fmlookup b ''mid'' = Some v_mid
        \<and> fmlookup b ''seq'' = Some v_seq \<and> map_exn Attachment_from_dict xs = Inr ys \<longrightarrow>
      MessageBody_from_dict (JObj b)
        = Inr \<lparr>b_mid = v_mid, b_seq = v_seq,
               b_text = (case fmlookup b ''text'' of None \<Rightarrow> JNull | Some v \<Rightarrow> v),
               b_attachments = map Attachment_obj ys,
               b_markup = (case fmlookup b ''markup'' of None \<Rightarrow> JNull | Some v \<Rightarrow> v)\<rparr>)"
proof -
  have c1: "fmlookup m ''type'' = Some t \<longrightarrow>
      Attachment_from_dict (JObj m)
        = Inr \<lparr>a_type = t,
               a_payload = (case fmlookup m ''payload'' of None \<Rightarrow> JNull | Some v \<Rightarrow> v)\<rparr>"
    by (simp add: Attachment_from_dict_def)
  have c2: "fmlookup m ''type'' = Some t \<and> fmlookup m ''payload'' = Some (JObj p) \<longrightarrow>
      LocationAttachment_from_dict (JObj m)
        = Inr \<lparr>a_type = t, a_payload = JObj p,
               latitude = (case fmlookup p ''latitude'' of None \<Rightarrow> JFloat 0 | Some v \<Rightarrow> v),
               longitude = (case fmlookup p ''longitude'' of None \<Rightarrow> JFloat 0 | Some v \<Rightarrow> v)\<rparr>"
    by (simp add: LocationAttachment_from_dict_def Let_def)
  have c3: "a_payload loc = JObj p \<longrightarrow>
      LocationAttachment_to_dict loc
        = Inr (fmap_of_list
            [(''type'', a_type loc),
             (''payload'', JObj (fmupd ''longitude'' (longitude loc)
                                  (fmupd ''latitude'' (latitude loc) p)))])"
    by (simp add: LocationAttachment_to_dict_def Let_def)
  have c4: "fmlookup b ''attachments'' = Some (JList xs) \<and> fmlookup b ''mid'' = Some v_mid
        \<and> fmlookup b ''seq'' = Some v_seq \<and> map_exn Attachment_from_dict xs = Inr ys \<longrightarrow>
      MessageBody_from_dict (JObj b)
        = Inr \<lparr>b_mid = v_mid, b_seq = v_seq,
               b_text = (case fmlookup b ''text'' of None \<Rightarrow> JNull | Some v \<Rightarrow> v),
               b_attachments = map Attachment_obj ys,
               b_markup = (case fmlookup b ''markup'' of None \<Rightarrow> JNull | Some v \<Rightarrow> v)\<rparr>"
    by (simp add: MessageBody_from_dict_def Let_def map_exn_base or_else_JList)
  show ?thesis using c1 c2 c3 c4 by blast
qed

theorem attachment_decoding_witness:
  "LocationAttachment_from_dict (JObj (fmap_of_list
         [(''type'', JStr ''location''),
          (''payload'', JObj (fmap_of_list
             [(''latitude'', JFloat 1.5), (''longitude'', JFloat 2.5)]))]))
    = Inr \<lparr>a_type = JStr ''location'',
           a_payload = JObj (fmap_of_list
             [(''latitude'', JFloat 1.5), (''longitude'', JFloat 2.5)]),
           latitude = JFloat 1.5, longitude = JFloat 2.5\<rparr>
   \<and> Attachment_from_dict (JObj (fmap_of_list
         [(''type'', JStr ''location''),
          (''payload'', JObj (fmap_of_list
             [(''latitude'', JFloat 1.5), (''longitude'', JFloat 2.5)]))]))
    = Inr \<lparr>a_type = JStr ''location'',
           a_payload = JObj (fmap_of_list
             [(''latitude'', JFloat 1.5), (''longitude'', JFloat 2.5)])\<rparr>
   \<and> LocationAttachment_to_dict
        \<lparr>a_type = JStr ''location'',
         a_payload = JObj (fmap_of_list
           [(''latitude'', JFloat 1.5), (''longitude'', JFloat 2.5)]),
         latitude = JFloat 1.5, longitude = JFloat 2.5\<rparr>
    = Inr (fmap_of_list
         [(''type'', JStr ''location''),
          (''payload'', JObj (fmap_of_list
             [(''latitude'', JFloat 1.5), (''longitude'', JFloat 2.5)]))])
   \<and> MessageBody_from_dict (JObj (fmap_of_list
         [(''mid'', JStr ''m1''), (''seq'', JInt 1),
          (''attachments'', JList [JObj (fmap_of_list
             [(''type'', JStr ''hologram''), (''payload'', JInt 3)])])]))
    = Inr \<lparr>b_mid = JStr ''m1'', b_seq = JInt 1, b_text = JNull,
           b_attachments = [Attachment_obj \<lparr>a_type = JStr ''hologram'', a_payload = JInt 3\<rparr>],
           b_markup = JNull\<rparr>"
proof -
  let ?p = "fmap_of_list [(''latitude'', JFloat 1.5), (''longitude'', JFloat 2.5)]"
  let ?m = "fmap_of_list [(''type'', JStr ''location''), (''payload'', JObj ?p)]"
  let ?loc = "\<lparr>a_type = JStr ''location'', a_payload = JObj ?p,
                latitude = JFloat 1.5, longitude = JFloat 2.5\<rparr>"
  let ?x = "JObj (fmap_of_list [(''type'', JStr ''hologram''), (''payload'', JInt 3)])"
  let ?b = "fmap_of_list
         [(''mid'', JStr ''m1''), (''seq'', JInt 1), (''attachments'', JList [?x])]"
  let ?y = "\<lparr>a_type = JStr ''hologram'', a_payload = JInt 3\<rparr>"
  have same: "fmupd ''longitude'' (JFloat 2.5) (fmupd ''latitude'' (JFloat 1.5) ?p) = ?p"
    by (intro fmap_ext) auto
  have elems: "map_exn Attachment_from_dict [?x] = Inr [?y]"
    by (simp add: Attachment_from_dict_def)
  from attachment_decoding[where m = ?m and t = "JStr ''location''" and p = ?p
      and loc = ?loc and b = ?b and xs = "[?x]" and ys = "[?y]"
      and v_mid = "JStr ''m1''" and v_seq = "JInt 1"] same elems
  show ?thesis by simp
qed

section \<open>Decoding what was encoded\<close>

lemma User_roundtrip: "User_from_dict (JObj (User_to_dict u)) = Inr (u :: User)"
  by (simp add: User_from_dict_def User_to_dict_def)

lemma UserWithPhoto_roundtrip:
  "UserWithPhoto_from_dict (JObj (UserWithPhoto_to_dict u)) = Inr (u :: UserWithPhoto)"
  by (simp add: UserWithPhoto_from_dict_def UserWithPhoto_to_dict_def
      User_from_dict_def User_to_dict_def)

lemma ChatMember_roundtrip:
  "ChatMember_from_dict (JObj (ChatMember_to_dict u)) = Inr u"
  by (cases "permissions u")
     (simp_all add: ChatMember_from_dict_def ChatMember_to_dict_def
      UserWithPhoto_from_dict_def UserWithPhoto_to_dict_def
      User_from_dict_def User_to_dict_def)

lemma Recipient_roundtrip: "Recipient_from_dict (JObj (Recipient_to_dict r)) = Inr r"
  by (simp add: Recipient_from_dict_def Recipient_to_dict_def)

lemma Attachment_roundtrip:
  "Attachment_from_dict (JObj (Attachment_to_dict a)) = Inr (a :: Attachment)"
  by (simp add: Attachment_from_dict_def Attachment_to_dict_def Let_def)

lemma MessageStat_roundtrip: "MessageStat_from_dict (JObj (MessageStat_to_dict x)) = Inr x"
  by (simp add: MessageStat_from_dict_def MessageStat_to_dict_def)

lemma ChatAdmin_roundtrip: "ChatAdmin_from_dict (JObj (ChatAdmin_to_dict a)) = Inr a"
  by (simp add: ChatAdmin_from_dict_def ChatAdmin_to_dict_def or_else_def)

lemma LocationAttachment_roundtrip:
  assumes "payload_has_coordinates a"
  shows "bnd (LocationAttachment_to_dict a) (\<lambda>d. LocationAttachment_from_dict (JObj d)) = Inr a"
proof -
  from assms obtain p where p: "a_payload a = JObj p"
    "fmlookup p ''latitude'' = Some (latitude a)" "fmlookup p ''longitude'' = Some (longitude a)"
    by (auto simp: payload_has_coordinates_def split: json.splits)
  have "fmupd ''longitude'' (longitude a) (fmupd ''latitude'' (latitude a) p) = p"
    using p(2,3) by (intro fmap_ext) auto
  then show ?thesis
    using p by (simp add: LocationAttachment_to_dict_def LocationAttachment_from_dict_def Let_def)
qed

lemma Update_value_roundtrip:
  assumes "free_payload u"
  shows "Update_from_dict (JObj (Update_to_dict u)) = Inr u"
proof -
  have "fmfilter (\<lambda>k. k \<noteq> ''update_type'' \<and> k \<noteq> ''timestamp'')
          (fmupd ''timestamp'' (u_timestamp u) (fmupd ''update_type'' (u_update_type u) (u_payload u)))
        = u_payload u"
    using assms by (intro fmap_ext) (auto simp: free_payload_def)
  then show ?thesis
    by (simp add: Update_from_dict_def Update_to_dict_def Let_def)
qed

lemma attachments_roundtrip:
  "list_all is_base xs \<Longrightarrow>
   bnd (map_exn attachment_to_dict xs) (\<lambda>ds. decode_attachments (JList (map JObj ds))) = Inr xs"
proof (induction xs)
  case Nil
  then show ?case by simp
next
  case (Cons x xs)
  then obtain a where x: "x = Attachment_obj a" by (cases x) auto
  from Cons have ih:
    "bnd (map_exn attachment_to_dict xs) (\<lambda>ds. decode_attachments (JList (map JObj ds))) = Inr xs"
    by simp
  then obtain ds where ds: "map_exn attachment_to_dict xs = Inr ds"
    by (cases "map_exn attachment_to_dict xs") auto
  with ih have "decode_attachments (JList (map JObj ds)) = Inr xs" by simp
  then show ?case
    using x ds by (simp add: Attachment_roundtrip)
qed

lemma MessageBody_roundtrip:
  assumes "base_body b"
  shows "bnd (MessageBody_to_dict b) (\<lambda>d. MessageBody_from_dict (JObj d)) = Inr b"
proof -
  from assms have
    "bnd (map_exn attachment_to_dict (b_attachments b))
       (\<lambda>ds. decode_attachments (JList (map JObj ds))) = Inr (b_attachments b)"
    unfolding base_body_def by (rule attachments_roundtrip)
  then obtain ds where ds: "map_exn attachment_to_dict (b_attachments b) = Inr ds"
    "decode_attachments (JList (map JObj ds)) = Inr (b_attachments b)"
    by (cases "map_exn attachment_to_dict (b_attachments b)") auto
  then show ?thesis
    by (simp add: MessageBody_to_dict_def MessageBody_from_dict_def Let_def)
qed


lemma decode_optional_None [simp]: "decode_optional f JNull = Inr None"
  by (simp add: decode_optional_def)

lemma decode_optional_JObj [simp]:
  "decode_optional f (JObj d) = bnd (f (JObj d)) (\<lambda>x. Inr (Some x))"
  by (simp add: decode_optional_def)

lemma optional_roundtrip:
  assumes "\<And>y. x = Some y \<Longrightarrow> bnd (enc y) (\<lambda>d. dec (JObj d)) = Inr y"
  shows "bnd (encode_optional enc x) (decode_optional dec) = Inr x"
proof (cases x)
  case None
  then show ?thesis by (simp add: encode_optional_def)
next
  case (Some y)
  with assms have r: "bnd (enc y) (\<lambda>d. dec (JObj d)) = Inr y" by simp
  then obtain d where "enc y = Inr d" "dec (JObj d) = Inr y"
    by (cases "enc y") auto
  with Some show ?thesis by (simp add: encode_optional_def)
qed

lemma roundtripE:
  assumes "bnd e (\<lambda>d. dec d) = Inr y"
  obtains d where "e = Inr d" "dec d = Inr y"
  using assms by (cases e) auto

lemma LinkedMessage_roundtrip:
  assumes "base_linked l"
  shows "bnd (LinkedMessage_to_dict l) (\<lambda>d. LinkedMessage_from_dict (JObj d)) = Inr l"
proof -
  have "bnd (encode_optional (\<lambda>u. Inr (User_to_dict u)) (l_sender l))
          (decode_optional User_from_dict) = Inr (l_sender l)"
    by (rule optional_roundtrip) (simp add: User_roundtrip)
  then obtain ds where ds:
    "encode_optional (\<lambda>u. Inr (User_to_dict u)) (l_sender l) = Inr ds"
    "decode_optional User_from_dict ds = Inr (l_sender l)"
    by (rule roundtripE)
  from assms have "bnd (MessageBody_to_dict (l_message l))
      (\<lambda>d. MessageBody_from_dict (JObj d)) = Inr (l_message l)"
    unfolding base_linked_def by (rule MessageBody_roundtrip)
  then obtain dm where dm: "MessageBody_to_dict (l_message l) = Inr dm"
    "MessageBody_from_dict (JObj dm) = Inr (l_message l)"
    by (rule roundtripE)
  show ?thesis
    using ds dm by (simp add: LinkedMessage_to_dict_def LinkedMessage_from_dict_def)
qed

lemma Message_roundtrip:
  assumes "base_message m"
  shows "bnd (Message_to_dict m) (\<lambda>d. Message_from_dict (JObj d)) = Inr m"
proof -
  have "bnd (encode_optional (\<lambda>u. Inr (User_to_dict u)) (m_sender m))
          (decode_optional User_from_dict) = Inr (m_sender m)"
    by (rule optional_roundtrip) (simp add: User_roundtrip)
  then obtain ds where ds:
    "encode_optional (\<lambda>u. Inr (User_to_dict u)) (m_sender m) = Inr ds"
    "decode_optional User_from_dict ds = Inr (m_sender m)"
    by (rule roundtripE)
  have "bnd (encode_optional LinkedMessage_to_dict (m_link m))
          (decode_optional LinkedMessage_from_dict) = Inr (m_link m)"
    using assms
    by (intro optional_roundtrip LinkedMessage_roundtrip) (simp add: base_message_def)
  then obtain dl where dl:
    "encode_optional LinkedMessage_to_dict (m_link m) = Inr dl"
    "decode_optional LinkedMessage_from_dict dl = Inr (m_link m)"
    by (rule roundtripE)
  have "bnd (encode_optional (\<lambda>s. Inr (MessageStat_to_dict s)) (m_stat m))
          (decode_optional MessageStat_from_dict) = Inr (m_stat m)"
    by (rule optional_roundtrip) (simp add: MessageStat_roundtrip)
  then obtain dt where dt:
    "encode_optional (\<lambda>s. Inr (MessageStat_to_dict s)) (m_stat m) = Inr dt"
    "decode_optional MessageStat_from_dict dt = Inr (m_stat m)"
    by (rule roundtripE)
  from assms have "bnd (MessageBody_to_dict (m_body m))
      (\<lambda>d. MessageBody_from_dict (JObj d)) = Inr (m_body m)"
    by (intro MessageBody_roundtrip) (simp add: base_message_def)
  then obtain db where db: "MessageBody_to_dict (m_body m) = Inr db"
    "MessageBody_from_dict (JObj db) = Inr (m_body m)"
    by (rule roundtripE)
  show ?thesis
    using ds dl dt db
    by (simp add: Message_to_dict_def Message_from_dict_def Recipient_roundtrip)
qed

lemma Chat_roundtrip:
  assumes "base_chat c"
  shows "bnd (Chat_to_dict c) (\<lambda>d. Chat_from_dict (JObj d)) = Inr c"
proof -
  have "bnd (encode_optional (\<lambda>u. Inr (UserWithPhoto_to_dict u)) (c_dialog_with_user c))
          (decode_optional UserWithPhoto_from_dict) = Inr (c_dialog_with_user c)"
    by (rule optional_roundtrip) (simp add: UserWithPhoto_roundtrip)
  then obtain dd where dd:
    "encode_optional (\<lambda>u. Inr (UserWithPhoto_to_dict u)) (c_dialog_with_user c) = Inr dd"
    "decode_optional UserWithPhoto_from_dict dd = Inr (c_dialog_with_user c)"
    by (rule roundtripE)
  have "bnd (encode_optional Message_to_dict (c_pinned_message c))
          (decode_optional Message_from_dict) = Inr (c_pinned_message c)"
    using assms
    by (intro optional_roundtrip Message_roundtrip) (simp add: base_chat_def)
  then obtain dp where dp:
    "encode_optional Message_to_dict (c_pinned_message c) = Inr dp"
    "decode_optional Message_from_dict dp = Inr (c_pinned_message c)"
    by (rule roundtripE)
  from assms consider "c_participants c = JNull" | p where "c_participants c = JObj p"
    by (cases "c_participants c") (simp_all add: base_chat_def)
  then show ?thesis
  proof cases
    case 1
    then show ?thesis
      using dd dp by (simp add: Chat_to_dict_def Chat_from_dict_def)
  next
    case 2
    then show ?thesis
      using dd dp by (simp add: Chat_to_dict_def Chat_from_dict_def)
  qed
qed

lemma fmupd_shadow: "fmupd a x (fmupd b y (fmupd a z m)) = fmupd a x (fmupd b y m)"
  by (intro fmap_ext) simp




section \<open>Missing and ill-shaped fields\<close>

lemma bnd_raises: "(\<And>x. raises (f x)) \<Longrightarrow> r \<noteq> Inl Unmodelled \<Longrightarrow> raises (bnd r f)"
  by (cases r) (auto simp: raises_def)

lemma bnd_modelled:
  "r \<noteq> Inl Unmodelled \<Longrightarrow> (\<And>x. f x \<noteq> Inl Unmodelled) \<Longrightarrow> bnd r f \<noteq> Inl Unmodelled"
  by (cases r) auto

lemma getitem_modelled: "getitem d k \<noteq> Inl Unmodelled"
  by (cases d) (auto split: option.splits)

lemma get_modelled: "get d k \<noteq> Inl Unmodelled"
  by (cases d) (auto simp: get_def)

lemma get_default_modelled: "get_default d k v \<noteq> Inl Unmodelled"
  by (cases d) auto

lemma Inr_modelled: "Inr x \<noteq> Inl Unmodelled"
  by simp

lemmas modelled_intros =
  bnd_modelled getitem_modelled get_modelled get_default_modelled Inr_modelled

lemma User_modelled: "User_from_dict d \<noteq> Inl Unmodelled"
  unfolding User_from_dict_def by (intro modelled_intros)

lemma UserWithPhoto_modelled: "UserWithPhoto_from_dict d \<noteq> Inl Unmodelled"
  unfolding UserWithPhoto_from_dict_def by (intro modelled_intros User_modelled)

lemma Recipient_modelled: "Recipient_from_dict d \<noteq> Inl Unmodelled"
  unfolding Recipient_from_dict_def by (intro modelled_intros)

lemma MessageStat_modelled: "MessageStat_from_dict d \<noteq> Inl Unmodelled"
  unfolding MessageStat_from_dict_def by (intro modelled_intros)

lemma Attachment_modelled: "Attachment_from_dict d \<noteq> Inl Unmodelled"
  unfolding Attachment_from_dict_def by (intro modelled_intros)

lemma map_exn_modelled:
  "(\<And>x. f x \<noteq> Inl Unmodelled) \<Longrightarrow> map_exn f xs \<noteq> Inl Unmodelled"
  by (induction xs) (simp_all add: bnd_modelled)

lemma decode_attachments_modelled: "decode_attachments d \<noteq> Inl Unmodelled"
  by (cases d) (simp_all add: map_exn_modelled bnd_modelled Attachment_modelled)

lemma MessageBody_modelled: "MessageBody_from_dict d \<noteq> Inl Unmodelled"
  unfolding MessageBody_from_dict_def Let_def
  by (intro modelled_intros decode_attachments_modelled)

lemma decode_optional_modelled:
  "(\<And>x. f x \<noteq> Inl Unmodelled) \<Longrightarrow> decode_optional f d \<noteq> Inl Unmodelled"
  by (simp add: decode_optional_def bnd_modelled)

lemma LinkedMessage_modelled: "LinkedMessage_from_dict d \<noteq> Inl Unmodelled"
  unfolding LinkedMessage_from_dict_def
  by (intro modelled_intros decode_optional_modelled User_modelled MessageBody_modelled)

lemma Message_modelled: "Message_from_dict d \<noteq> Inl Unmodelled"
  unfolding Message_from_dict_def
  by (intro modelled_intros decode_optional_modelled User_modelled MessageBody_modelled
      LinkedMessage_modelled MessageStat_modelled Recipient_modelled)

lemma raises_iff: "raises r \<longleftrightarrow> isl r \<and> r \<noteq> Inl Unmodelled"
  by (cases r) (auto simp: raises_def)

lemma isl_bnd: "(\<And>x. isl (f x)) \<Longrightarrow> isl (bnd r f)"
  by (cases r) (auto simp: bnd_def)

lemma isl_bnd_Inl [simp]: "isl (bnd (Inl e) f)"
  by (simp add: bnd_def)

lemma User_missing:
  assumes "fmlookup m ''user_id'' = None \<or> fmlookup m ''first_name'' = None
     \<or> fmlookup m ''is_bot'' = None \<or> fmlookup m ''last_activity_time'' = None"
  shows "\<exists>k'. User_from_dict (JObj m) = Inl (KeyError k') \<and> fmlookup m k' = None"
proof (cases "fmlookup m ''user_id''")
  case None
  then show ?thesis by (simp add: User_from_dict_def)
next
  case a: (Some v1)
  show ?thesis
  proof (cases "fmlookup m ''first_name''")
    case None
    then show ?thesis using a by (simp add: User_from_dict_def)
  next
    case b: (Some v2)
    show ?thesis
    proof (cases "fmlookup m ''is_bot''")
      case None
      then show ?thesis using a b by (simp add: User_from_dict_def)
    next
      case c: (Some v3)
      with assms a b have "fmlookup m ''last_activity_time'' = None" by simp
      then show ?thesis using a b c by (simp add: User_from_dict_def)
    qed
  qed
qed

lemma User_present:
  assumes "fmlookup m ''user_id'' = Some v1" and "fmlookup m ''first_name'' = Some v2"
    and "fmlookup m ''is_bot'' = Some v3" and "fmlookup m ''last_activity_time'' = Some v4"
  shows "User_from_dict (JObj m) =
     Inr \<lparr>user_id = v1, first_name = v2,
          last_name = (case fmlookup m ''last_name'' of None \<Rightarrow> JNull | Some v \<Rightarrow> v),
          username = (case fmlookup m ''username'' of None \<Rightarrow> JNull | Some v \<Rightarrow> v),
          is_bot = v3, last_activity_time = v4,
          name = (case fmlookup m ''name'' of None \<Rightarrow> JNull | Some v \<Rightarrow> v)\<rparr>"
  using assms by (simp add: User_from_dict_def)

lemma UserWithPhoto_missing:
  assumes "fmlookup m ''user_id'' = None \<or> fmlookup m ''first_name'' = None
     \<or> fmlookup m ''is_bot'' = None \<or> fmlookup m ''last_activity_time'' = None"
  shows "\<exists>k'. UserWithPhoto_from_dict (JObj m) = Inl (KeyError k') \<and> fmlookup m k' = None"
proof -
  from User_missing[OF assms] obtain k' where
    "User_from_dict (JObj m) = Inl (KeyError k')" "fmlookup m k' = None" by blast
  then show ?thesis by (simp add: UserWithPhoto_from_dict_def)
qed

lemma ChatMember_missing:
  assumes "fmlookup m ''user_id'' = None \<or> fmlookup m ''first_name'' = None
     \<or> fmlookup m ''is_bot'' = None \<or> fmlookup m ''last_activity_time'' = None
     \<or> fmlookup m ''last_access_time'' = None \<or> fmlookup m ''is_owner'' = None
     \<or> fmlookup m ''is_admin'' = None \<or> fmlookup m ''join_time'' = None"
  shows "\<exists>k'. ChatMember_from_dict (JObj m) = Inl (KeyError k') \<and> fmlookup m k' = None"
proof (cases "fmlookup m ''user_id'' = None \<or> fmlookup m ''first_name'' = None
     \<or> fmlookup m ''is_bot'' = None \<or> fmlookup m ''last_activity_time'' = None")
  case True
  from UserWithPhoto_missing[OF True] obtain k' where
    "UserWithPhoto_from_dict (JObj m) = Inl (KeyError k')" "fmlookup m k' = None" by blast
  then show ?thesis by (simp add: ChatMember_from_dict_def)
next
  case False
  then obtain v1 v2 v3 v4 where present:
    "fmlookup m ''user_id'' = Some v1" "fmlookup m ''first_name'' = Some v2"
    "fmlookup m ''is_bot'' = Some v3" "fmlookup m ''last_activity_time'' = Some v4"
    by auto
  from User_present[OF present] obtain base where
    base: "UserWithPhoto_from_dict (JObj m) = Inr base"
    by (simp add: UserWithPhoto_from_dict_def)
  from assms have missing:
    "fmlookup m ''last_access_time'' = None \<or> fmlookup m ''is_owner'' = None
     \<or> fmlookup m ''is_admin'' = None \<or> fmlookup m ''join_time'' = None"
    by (simp add: present)
  show ?thesis
  proof (cases "fmlookup m ''last_access_time''")
    case None
    then show ?thesis using base by (simp add: ChatMember_from_dict_def)
  next
    case a: (Some w1)
    show ?thesis
    proof (cases "fmlookup m ''is_owner''")
      case None
      then show ?thesis using base a by (simp add: ChatMember_from_dict_def)
    next
      case b: (Some w2)
      show ?thesis
      proof (cases "fmlookup m ''is_admin''")
        case None
        then show ?thesis using base a b by (simp add: ChatMember_from_dict_def)
      next
        case c: (Some w3)
        with missing a b have "fmlookup m ''join_time'' = None" by simp
        then show ?thesis using base a b c by (simp add: ChatMember_from_dict_def)
      qed
    qed
  qed
qed

lemma MessageBody_missing:
  assumes "fmlookup m ''mid'' = None \<or> fmlookup m ''seq'' = None"
  shows "raises (MessageBody_from_dict (JObj m))"
proof -
  have required:
    "isl (bnd (getitem (JObj m) ''mid'') (\<lambda>v. bnd (getitem (JObj m) ''seq'') (f v)))" for f
    using assms by (cases "fmlookup m ''mid''") auto
  have "isl (MessageBody_from_dict (JObj m))"
    unfolding MessageBody_from_dict_def Let_def get_JObj bnd_Inr
    by (intro required isl_bnd)
  then show ?thesis by (simp add: raises_iff MessageBody_modelled)
qed

lemma LinkedMessage_missing:
  assumes "fmlookup m ''type'' = None \<or> fmlookup m ''chat_id'' = None
     \<or> fmlookup m ''message'' = None"
  shows "raises (LinkedMessage_from_dict (JObj m))"
proof -
  have required:
    "isl (bnd (getitem (JObj m) ''type'') (\<lambda>v. bnd (getitem (JObj m) ''chat_id'')
          (\<lambda>w. bnd (getitem (JObj m) ''message'') (f v w))))" for f
    using assms
    by (cases "fmlookup m ''type''"; cases "fmlookup m ''chat_id''") auto
  have "isl (LinkedMessage_from_dict (JObj m))"
    unfolding LinkedMessage_from_dict_def get_JObj bnd_Inr
    by (intro required isl_bnd)
  then show ?thesis by (simp add: raises_iff LinkedMessage_modelled)
qed

lemma Message_missing:
  assumes "fmlookup m ''recipient'' = None \<or> fmlookup m ''body'' = None
     \<or> fmlookup m ''timestamp'' = None"
  shows "raises (Message_from_dict (JObj m))"
proof -
  have required:
    "isl (bnd (getitem (JObj m) ''recipient'') (\<lambda>r. bnd (Recipient_from_dict r)
          (\<lambda>v. bnd (getitem (JObj m) ''body'') (\<lambda>b. bnd (MessageBody_from_dict b)
          (\<lambda>w. bnd (getitem (JObj m) ''timestamp'') (f v w))))))" for f
    using assms
    by (cases "fmlookup m ''recipient''"; cases "fmlookup m ''body''")
       (auto intro!: isl_bnd)
  have "isl (Message_from_dict (JObj m))"
    unfolding Message_from_dict_def get_JObj bnd_Inr
    by (intro required isl_bnd)
  then show ?thesis by (simp add: raises_iff Message_modelled)
qed


lemma participants_modelled:
  assumes "\<not> (\<exists>x xs. v = JList (x # xs))"
  shows "(if v \<noteq> JNull then bnd (py_dict v) (\<lambda>d. Inr (JObj d)) else Inr v) \<noteq> Inl Unmodelled"
proof (cases v)
  case (JList ys)
  with assms have "ys = []" by (cases ys) auto
  with JList show ?thesis by simp
next
  case (JStr s)
  then show ?thesis by (cases s) auto
qed auto

lemma Chat_modelled:
  assumes "\<not> (\<exists>x xs. fmlookup m ''participants'' = Some (JList (x # xs)))"
  shows "Chat_from_dict (JObj m) \<noteq> Inl Unmodelled"
proof -
  have "\<not> (\<exists>x xs. (case fmlookup m ''participants'' of None \<Rightarrow> JNull | Some v \<Rightarrow> v)
            = JList (x # xs))"
    using assms by (auto split: option.splits)
  then show ?thesis
    unfolding Chat_from_dict_def get_JObj bnd_Inr
    by (intro modelled_intros decode_optional_modelled UserWithPhoto_modelled
        Message_modelled participants_modelled)
qed

lemma Chat_missing:
  assumes "fmlookup m ''chat_id'' = None \<or> fmlookup m ''type'' = None
     \<or> fmlookup m ''status'' = None \<or> fmlookup m ''last_event_time'' = None
     \<or> fmlookup m ''participants_count'' = None \<or> fmlookup m ''is_public'' = None"
    and "\<not> (\<exists>x xs. fmlookup m ''participants'' = Some (JList (x # xs)))"
  shows "raises (Chat_from_dict (JObj m))"
proof -
  have required:
    "isl (bnd (getitem (JObj m) ''chat_id'') (\<lambda>a. bnd (getitem (JObj m) ''type'')
          (\<lambda>b. bnd (getitem (JObj m) ''status'')
          (\<lambda>c. bnd (getitem (JObj m) ''last_event_time'')
          (\<lambda>d. bnd (getitem (JObj m) ''participants_count'')
          (\<lambda>e. bnd (getitem (JObj m) ''is_public'') (f a b c d e)))))))" for f
    using assms(1)
    by (cases "fmlookup m ''chat_id''"; cases "fmlookup m ''type''";
        cases "fmlookup m ''status''"; cases "fmlookup m ''last_event_time''";
        cases "fmlookup m ''participants_count''") auto
  have "isl (Chat_from_dict (JObj m))"
    unfolding Chat_from_dict_def get_JObj bnd_Inr
    by (intro required isl_bnd)
  then show ?thesis by (simp add: raises_iff Chat_modelled[OF assms(2)])
qed

lemma Update_missing:
  assumes "fmlookup m ''update_type'' = None \<or> fmlookup m ''timestamp'' = None"
  shows "\<exists>k'. Update_from_dict (JObj m) = Inl (KeyError k') \<and> fmlookup m k' = None"
  using assms by (cases "fmlookup m ''update_type''") (auto simp: Update_from_dict_def)




end
